theory Spec2Isabelle
  imports Complex_Main
begin

section \<open>SurfaceArrayCreator: a shallow embedding\<close>

text \<open>
  The development follows \<^verbatim>\<open>Core/src/Tools/SurfaceArrayCreator.cpp\<close>.
  Surfaces and detector elements are C++ pointers that are only compared and
  dereferenced: a pointer is its address (a natural number), a nullable pointer
  is an \<open>option\<close>, and the attributes read through a pointer are functions of
  the address.  Indexing a \<^verbatim>\<open>std::vector\<close> outside its range is undefined
  behaviour in C++; the embedding makes it the error value \<open>OutOfRange\<close>.
\<close>

subsection \<open>Doubles and vectors\<close>

text \<open>
  A \<^verbatim>\<open>double\<close> is a real number or NaN.  NaN is kept because the disc
  construction divides by the number of surfaces, and \<^verbatim>\<open>0.0 / 0\<close> is NaN (no
  trap) in IEEE arithmetic.  Every arithmetic operation on doubles rounds its
  exact result to the nearest double, ties to the even significand, with the
  53-bit significand of binary64; the exponent range is not bounded, so
  overflow to infinity and subnormal numbers are not modelled.
\<close>

datatype double = Finite real | NaN

text \<open>Rounding a real to the nearest integer, ties to even.\<close>

definition rne :: "real \<Rightarrow> int" where
  "rne y =
     (let f = \<lfloor>y\<rfloor>
      in if y - of_int f < 1 / 2 then f
         else if 1 / 2 < y - of_int f then f + 1
         else if even f then f else f + 1)"

text \<open>The power \<open>2\<^sup>k\<close> for an integer \<open>k\<close>.\<close>

definition pow2 :: "int \<Rightarrow> real" where
  "pow2 k = (if 0 \<le> k then 2 ^ nat k else 1 / 2 ^ nat (- k))"

text \<open>The binary exponent \<open>e\<close> of \<open>x \<noteq> 0\<close>: \<open>2\<^sup>e \<le> |x| < 2\<^sup>e\<^sup>+\<^sup>1\<close>.\<close>

definition exponent :: "real \<Rightarrow> int" where
  "exponent x = \<lfloor>log 2 \<bar>x\<bar>\<rfloor>"

text \<open>The spacing of the doubles in the binade of \<open>x\<close>.\<close>

definition ulp :: "real \<Rightarrow> real" where
  "ulp x = pow2 (exponent x - 52)"

text \<open>The double nearest to the real \<open>x\<close>.\<close>

definition round64 :: "real \<Rightarrow> real" where
  "round64 x = (if x = 0 then 0 else ulp x * of_int (rne (x / ulp x)))"

fun dadd :: "double \<Rightarrow> double \<Rightarrow> double" where
  "dadd (Finite a) (Finite b) = Finite (round64 (a + b))"
| "dadd _ _ = NaN"

fun dsub :: "double \<Rightarrow> double \<Rightarrow> double" where
  "dsub (Finite a) (Finite b) = Finite (round64 (a - b))"
| "dsub _ _ = NaN"

text \<open>The comparison \<^verbatim>\<open>a < b\<close>: false as soon as one side is NaN.\<close>

fun dless :: "double \<Rightarrow> double \<Rightarrow> bool" where
  "dless (Finite a) (Finite b) = (a < b)"
| "dless _ _ = False"

text \<open>The comparison \<^verbatim>\<open>a <= b\<close>, used to state the tie-break.\<close>

fun dle :: "double \<Rightarrow> double \<Rightarrow> bool" where
  "dle (Finite a) (Finite b) = (a \<le> b)"
| "dle _ _ = False"

text \<open>
  \<^verbatim>\<open>z /= surfaces.size()\<close>: the division of a double by a count converted to
  double.  A zero count is reached only with \<open>z = 0\<close> (the sum over no
  surfaces), where the quotient is NaN.
\<close>

fun ddiv_count :: "double \<Rightarrow> nat \<Rightarrow> double" where
  "ddiv_count (Finite a) n = (if n = 0 then NaN else Finite (round64 (a / real n)))"
| "ddiv_count NaN n = NaN"

datatype Vector3D = Vector3D (vx: double) (vy: double) (vz: double)

fun vsub :: "Vector3D \<Rightarrow> Vector3D \<Rightarrow> Vector3D" where
  "vsub (Vector3D a b c) (Vector3D a' b' c') =
     Vector3D (dsub a a') (dsub b b') (dsub c c')"

text \<open>
  Modelled from the spec: \<^verbatim>\<open>Vector3D::mag()\<close> comes from the linear-algebra
  library, which is not part of the sources; the spec calls it the Euclidean
  distance.  It is computed in doubles: the squares are summed from left to
  right and the root is taken, each operation rounding once.
\<close>

fun mag :: "Vector3D \<Rightarrow> double" where
  "mag (Vector3D (Finite a) (Finite b) (Finite c)) =
     Finite (round64 (sqrt (round64 (round64 (round64 (a * a) + round64 (b * b)) + round64 (c * c)))))"
| "mag _ = NaN"

subsection \<open>Surfaces, grids and matrices\<close>

type_synonym Surface = nat
type_synonym DetectorElement = nat

datatype BinningValue = binR | binPhi | binZ

text \<open>
  What the code reads through a \<^verbatim>\<open>const Surface*\<close>:
  \<^verbatim>\<open>binningPosition(bValue)\<close> and \<^verbatim>\<open>associatedDetectorElement()\<close>
  (null when the surface has none).
\<close>

record Surfaces =
  binningPosition :: "Surface \<Rightarrow> BinningValue \<Rightarrow> Vector3D"
  associatedDetectorElement :: "Surface \<Rightarrow> DetectorElement option"

type_synonym SurfaceVector = "Surface option list"
type_synonym SurfaceMatrix = "SurfaceVector list"
type_synonym SurfaceGrid = "SurfaceMatrix list"
type_synonym V3Vector = "Vector3D list"
type_synonym V3Matrix = "V3Vector list"

datatype error = OutOfRange

text \<open>The read \<^verbatim>\<open>sGrid[i2][i1][i0]\<close>.\<close>

definition grid_get :: "SurfaceGrid \<Rightarrow> nat \<Rightarrow> nat \<Rightarrow> nat \<Rightarrow> error + Surface option" where
  "grid_get g i2 i1 i0 =
     (if i2 < length g \<and> i1 < length (g ! i2) \<and> i0 < length (g ! i2 ! i1)
      then Inr (g ! i2 ! i1 ! i0) else Inl OutOfRange)"

text \<open>The write \<^verbatim>\<open>sGrid[i2][i1][i0] = v\<close>.\<close>

definition grid_set :: "SurfaceGrid \<Rightarrow> nat \<Rightarrow> nat \<Rightarrow> nat \<Rightarrow> Surface option \<Rightarrow> error + SurfaceGrid" where
  "grid_set g i2 i1 i0 v =
     (if i2 < length g \<and> i1 < length (g ! i2) \<and> i0 < length (g ! i2 ! i1)
      then Inr (g[i2 := (g ! i2)[i1 := (g ! i2 ! i1)[i0 := v] ] ]) else Inl OutOfRange)"

text \<open>The read \<^verbatim>\<open>v3Matrix[i1][i0]\<close>.\<close>

definition v3_get :: "V3Matrix \<Rightarrow> nat \<Rightarrow> nat \<Rightarrow> error + Vector3D" where
  "v3_get m i1 i0 =
     (if i1 < length m \<and> i0 < length (m ! i1) then Inr (m ! i1 ! i0) else Inl OutOfRange)"

subsection \<open>completeBinning\<close>

text \<open>
  The local state of the loop over \<^verbatim>\<open>sVector\<close> for one cell: the grid, the
  locals \<^verbatim>\<open>sentry\<close> and \<^verbatim>\<open>minPath\<close>, and \<open>paths\<close>, which counts the
  evaluations of \<^verbatim>\<open>testPath\<close> (an instrument of the embedding, not a program
  variable).
\<close>

record fill =
  sGrid :: SurfaceGrid
  sentry :: "Surface option"
  minPath :: double
  paths :: nat

text \<open>
  The assignment \<^verbatim>\<open>sGrid[0][io1][io0] = sf\<close> inside the loop; the cell has been
  read into \<^verbatim>\<open>sentry\<close> before the loop starts, so it is in range here.
\<close>

definition cell_write :: "SurfaceGrid \<Rightarrow> nat \<Rightarrow> nat \<Rightarrow> Surface option \<Rightarrow> SurfaceGrid" where
  "cell_write g io1 io0 v = g[0 := (g ! 0)[io1 := (g ! 0 ! io1)[io0 := v] ] ]"

text \<open>\<^verbatim>\<open>for (auto& sf : sVector) { ... }\<close>\<close>

fun closest :: "Surfaces \<Rightarrow> Vector3D \<Rightarrow> nat \<Rightarrow> nat \<Rightarrow> Surface list \<Rightarrow> fill \<Rightarrow> fill" where
  "closest S sposition io1 io0 [] st = st"
| "closest S sposition io1 io0 (sf # sfs) st =
     (let testPath = mag (vsub sposition (binningPosition S sf binR))
      in closest S sposition io1 io0 sfs
           (if dless testPath (minPath st)
            then \<lparr>sGrid = cell_write (sGrid st) io1 io0 (Some sf),
                  sentry = Some sf,
                  minPath = testPath,
                  paths = Suc (paths st)\<rparr>
            else st\<lparr>paths := Suc (paths st)\<rparr>))"

text \<open>
  \<^verbatim>\<open>for (size_t io0 = 0; io0 < v3Matrix[0].size(); ++io0)\<close>, as a recursion over
  the indices still to visit.  The state is the grid and the evaluation count.
  \<^verbatim>\<open>minPath\<close> starts at \<^verbatim>\<open>10e10\<close>.
\<close>

fun loop_io0 :: "Surfaces \<Rightarrow> V3Matrix \<Rightarrow> Surface list \<Rightarrow> nat \<Rightarrow> nat list \<Rightarrow>
    SurfaceGrid \<times> nat \<Rightarrow> error + SurfaceGrid \<times> nat" where
  "loop_io0 S v3Matrix sVector io1 [] st = Inr st"
| "loop_io0 S v3Matrix sVector io1 (io0 # rest) st =
     (case grid_get (fst st) 0 io1 io0 of
        Inl e \<Rightarrow> Inl e
      | Inr sentry0 \<Rightarrow>
          (case v3_get v3Matrix io1 io0 of
             Inl e \<Rightarrow> Inl e
           | Inr sposition \<Rightarrow>
               (let st' = closest S sposition io1 io0 sVector
                            \<lparr>sGrid = fst st, sentry = sentry0,
                             minPath = Finite 100000000000, paths = snd st\<rparr>
                in loop_io0 S v3Matrix sVector io1 rest (sGrid st', paths st'))))"

text \<open>\<^verbatim>\<open>for (size_t io1 = 0; io1 < v3Matrix.size(); ++io1)\<close>\<close>

fun loop_io1 :: "Surfaces \<Rightarrow> V3Matrix \<Rightarrow> Surface list \<Rightarrow> nat \<Rightarrow> nat list \<Rightarrow>
    SurfaceGrid \<times> nat \<Rightarrow> error + SurfaceGrid \<times> nat" where
  "loop_io1 S v3Matrix sVector n0 [] st = Inr st"
| "loop_io1 S v3Matrix sVector n0 (io1 # rest) st =
     (case loop_io0 S v3Matrix sVector io1 [0..<n0] st of
        Inl e \<Rightarrow> Inl e
      | Inr st' \<Rightarrow> loop_io1 S v3Matrix sVector n0 rest st')"

text \<open>
  \<^verbatim>\<open>completeBinning(binUtility, v3Matrix, sVector, sGrid)\<close>.  The bin utility is
  not used by the body and is left out; \<^verbatim>\<open>sVector\<close> holds valid pointers
  (each is dereferenced).  \<^verbatim>\<open>v3Matrix[0]\<close> on an empty matrix is out of range.
  The sizes are those of allocated vectors, so their product does not wrap.
  The result is the grid and the number of \<^verbatim>\<open>testPath\<close> evaluations.
\<close>

definition completeBinning :: "Surfaces \<Rightarrow> V3Matrix \<Rightarrow> Surface list \<Rightarrow> SurfaceGrid \<Rightarrow>
    error + SurfaceGrid \<times> nat" where
  "completeBinning S v3Matrix sVector g =
     (case v3Matrix of
        [] \<Rightarrow> Inl OutOfRange
      | row0 # _ \<Rightarrow>
          (let nSurfaces = length sVector;
               nGridPoints = length v3Matrix * length row0
           in if nGridPoints = nSurfaces then Inr (g, 0)
              else loop_io1 S v3Matrix sVector (length row0) [0..<length v3Matrix] (g, 0)))"

text \<open>
  The cell-level view of the loop over \<^verbatim>\<open>sVector\<close>: the value of the one
  cell the loop writes, paired with \<^verbatim>\<open>minPath\<close>.
\<close>

fun nearest :: "Surfaces \<Rightarrow> Vector3D \<Rightarrow> Surface list \<Rightarrow> Surface option \<times> double \<Rightarrow>
    Surface option \<times> double" where
  "nearest S c [] st = st"
| "nearest S c (sf # sfs) st =
     (let testPath = mag (vsub c (binningPosition S sf binR))
      in nearest S c sfs (if dless testPath (snd st) then (Some sf, testPath) else st))"

definition testPath_of :: "Surfaces \<Rightarrow> Vector3D \<Rightarrow> Surface \<Rightarrow> double" where
  "testPath_of S c sf = mag (vsub c (binningPosition S sf binR))"

text \<open>
  Index \<open>k\<close> of \<open>sfs\<close> is the first nearest surface below the bound \<open>m\<close>: its
  distance is below \<open>m\<close>, no surface of the list is strictly nearer, and no
  earlier surface is as near.
\<close>

definition first_nearest :: "Surfaces \<Rightarrow> Vector3D \<Rightarrow> Surface list \<Rightarrow> double \<Rightarrow> nat \<Rightarrow> bool" where
  "first_nearest S c sfs m k \<longleftrightarrow>
     k < length sfs \<and> dless (testPath_of S c (sfs ! k)) m \<and>
     (\<forall>j<length sfs. \<not> dless (testPath_of S c (sfs ! j)) (testPath_of S c (sfs ! k))) \<and>
     (\<forall>j<k. \<not> dle (testPath_of S c (sfs ! j)) (testPath_of S c (sfs ! k)))"

definition cell_after :: "Surfaces \<Rightarrow> Vector3D \<Rightarrow> Surface list \<Rightarrow> Surface option \<Rightarrow> Surface option" where
  "cell_after S c sVector cell = fst (nearest S c sVector (cell, Finite 100000000000))"


subsection \<open>Bin utility and surface array\<close>

text \<open>
  Modelled from the spec: \<^verbatim>\<open>BinningData\<close> and \<^verbatim>\<open>BinUtility\<close> are declared
  outside the sources.  A bin utility is the ordered composition of its axes
  (axis 0 first) with an optional transform; \<^verbatim>\<open>+=\<close> appends the axes of its
  argument.  The boundary kinds \<^verbatim>\<open>open\<close> and \<^verbatim>\<open>closed\<close> carry a suffix here.
\<close>

datatype BinningOption = open_bin | closed_bin

typedecl Transform3D

record BinningData =
  bd_option :: BinningOption
  binvalue :: BinningValue
  bins :: nat
  bd_min :: real
  bd_max :: real
  zdim :: bool

record BinUtility =
  binningData :: "BinningData list"
  utility_transform :: "Transform3D option"

text \<open>
  Modelled from the spec: the constructor
  \<^verbatim>\<open>BinUtility(bins, min, max, option, value, transform)\<close> of a utility with one
  equidistant axis.
\<close>

definition BinUtility_1D :: "nat \<Rightarrow> real \<Rightarrow> real \<Rightarrow> BinningOption \<Rightarrow> BinningValue \<Rightarrow>
    Transform3D option \<Rightarrow> BinUtility" where
  "BinUtility_1D n lo hi opt bv tr =
     \<lparr>binningData = [\<lparr>bd_option = opt, binvalue = bv, bins = n, bd_min = lo, bd_max = hi,
                       zdim = False\<rparr>],
      utility_transform = tr\<rparr>"

text \<open>
  Modelled from the spec: \<^verbatim>\<open>BinningData(value, min, max)\<close>, the single-bin
  axis of the degenerate disc.
\<close>

definition BinningData_0D :: "BinningValue \<Rightarrow> real \<Rightarrow> real \<Rightarrow> BinningData" where
  "BinningData_0D bv lo hi =
     \<lparr>bd_option = open_bin, binvalue = bv, bins = 1, bd_min = lo, bd_max = hi, zdim = True\<rparr>"

text \<open>Modelled from the spec: \<^verbatim>\<open>BinUtility(bData, transform)\<close>.\<close>

definition BinUtility_of :: "BinningData \<Rightarrow> Transform3D option \<Rightarrow> BinUtility" where
  "BinUtility_of bd tr = \<lparr>binningData = [bd], utility_transform = tr\<rparr>"

text \<open>
  Modelled from the spec: \<^verbatim>\<open>operator+=\<close>, the composition of two utilities in
  axis order.
\<close>

definition BinUtility_plus :: "BinUtility \<Rightarrow> BinUtility \<Rightarrow> BinUtility" where
  "BinUtility_plus u v = u\<lparr>binningData := binningData u @ binningData v\<rparr>"

record SurfaceArray =
  objectGrid :: SurfaceGrid
  arrayUtility :: BinUtility

text \<open>
  The collaborators whose code is outside the sources are parameters:
  \<^verbatim>\<open>BinUtility::binTriple\<close>, \<^verbatim>\<open>BinningData::centerValue\<close> and
  \<^verbatim>\<open>BinnedArrayXD::objectCluster\<close>.  \<^verbatim>\<open>registerNeighbours\<close> is a separate
  parameter \<open>reg\<close>, acting on the state \<open>'st\<close> of the detector elements.
\<close>

record Collaborators =
  binTriple :: "BinUtility \<Rightarrow> Vector3D \<Rightarrow> nat \<times> nat \<times> nat"
  centerValue :: "BinningData \<Rightarrow> nat \<Rightarrow> real"
  objectCluster :: "SurfaceArray \<Rightarrow> nat \<times> nat \<times> nat \<Rightarrow> Surface option list"

subsection \<open>registerNeighbourHood\<close>

text \<open>
  The vector \<^verbatim>\<open>neighbourElements\<close> of one iteration over the cluster: it is
  declared inside the loop body, so it holds the element of \<^verbatim>\<open>nSurface\<close> or
  nothing.
\<close>

definition neighbourElements_of :: "Surfaces \<Rightarrow> Surface \<Rightarrow> Surface option \<Rightarrow> DetectorElement list" where
  "neighbourElements_of S bSurface nSurface =
     (case nSurface of
        None \<Rightarrow> []
      | Some ns \<Rightarrow>
          if ns \<noteq> bSurface
          then (case associatedDetectorElement S ns of None \<Rightarrow> [] | Some e \<Rightarrow> [e])
          else [])"

text \<open>
  The body of \<^verbatim>\<open>for (auto& nSurface : objectCluster)\<close>.  The state is the
  state of the detector elements and the counter \<^verbatim>\<open>neighboursSet\<close>.
\<close>

definition cluster_step :: "(DetectorElement \<Rightarrow> DetectorElement list \<Rightarrow> 'st \<Rightarrow> 'st) \<Rightarrow> Surfaces \<Rightarrow>
    Surface \<Rightarrow> DetectorElement \<Rightarrow> Surface option \<Rightarrow> 'st \<times> nat \<Rightarrow> 'st \<times> nat" where
  "cluster_step reg S bSurface bElement nSurface st =
     (let neighbourElements = neighbourElements_of S bSurface nSurface
      in (reg bElement neighbourElements (fst st), snd st + length neighbourElements))"

text \<open>The body of \<^verbatim>\<open>for (auto& bSurface : v10)\<close> at the indices \<open>(io0, io1, io2)\<close>.\<close>

definition cell_visit :: "(DetectorElement \<Rightarrow> DetectorElement list \<Rightarrow> 'st \<Rightarrow> 'st) \<Rightarrow> Collaborators \<Rightarrow>
    Surfaces \<Rightarrow> SurfaceArray \<Rightarrow> nat \<Rightarrow> nat \<Rightarrow> nat \<Rightarrow> Surface option \<Rightarrow> 'st \<times> nat \<Rightarrow> 'st \<times> nat" where
  "cell_visit reg H S sArray io2 io1 io0 bSurface st =
     (case bSurface of
        None \<Rightarrow> st
      | Some bs \<Rightarrow>
          (case associatedDetectorElement S bs of
             None \<Rightarrow> st
           | Some bElement \<Rightarrow>
               fold (cluster_step reg S bs bElement) (objectCluster H sArray (io0, io1, io2)) st))"

text \<open>
  The three range-based loops over the grid, each with its hand-kept counter
  \<^verbatim>\<open>io2\<close>, \<^verbatim>\<open>io1\<close>, \<^verbatim>\<open>io0\<close> starting at 0.
\<close>

definition registerNeighbourHood :: "(DetectorElement \<Rightarrow> DetectorElement list \<Rightarrow> 'st \<Rightarrow> 'st) \<Rightarrow>
    Collaborators \<Rightarrow> Surfaces \<Rightarrow> SurfaceArray \<Rightarrow> 'st \<Rightarrow> 'st \<times> nat" where
  "registerNeighbourHood reg H S sArray els =
     fold (\<lambda>(io2, v210).
        fold (\<lambda>(io1, v10).
           fold (\<lambda>(io0, bSurface). cell_visit reg H S sArray io2 io1 io0 bSurface)
             (enumerate 0 v10))
          (enumerate 0 v210))
       (enumerate 0 (objectGrid sArray)) (els, 0)"

text \<open>
  Modelled from the spec: \<^verbatim>\<open>DetectorElementBase::registerNeighbours\<close> is
  outside the sources; the spec gives it as "last write wins if called
  twice".  The state maps an element to its registered neighbour list.
\<close>

definition registerNeighbours :: "DetectorElement \<Rightarrow> DetectorElement list \<Rightarrow>
    (DetectorElement \<Rightarrow> DetectorElement list) \<Rightarrow> (DetectorElement \<Rightarrow> DetectorElement list)" where
  "registerNeighbours e l nb = nb(e := l)"

text \<open>The other instance of \<open>reg\<close>: the log of the calls, in call order.\<close>

definition logCalls :: "DetectorElement \<Rightarrow> DetectorElement list \<Rightarrow>
    (DetectorElement \<times> DetectorElement list) list \<Rightarrow> (DetectorElement \<times> DetectorElement list) list" where
  "logCalls e l tr = tr @ [(e, l)]"

text \<open>The cells of a grid with their index triples, in iteration order.\<close>

definition cells_of :: "SurfaceGrid \<Rightarrow> ((nat \<times> nat \<times> nat) \<times> Surface option) list" where
  "cells_of g =
     concat (map (\<lambda>(io2, v210).
        concat (map (\<lambda>(io1, v10). map (\<lambda>(io0, b). ((io0, io1, io2), b)) (enumerate 0 v10))
          (enumerate 0 v210)))
       (enumerate 0 g))"

text \<open>The calls of \<^verbatim>\<open>registerNeighbours\<close> made for one cell.\<close>

definition calls_of_cell :: "Collaborators \<Rightarrow> Surfaces \<Rightarrow> SurfaceArray \<Rightarrow>
    (nat \<times> nat \<times> nat) \<times> Surface option \<Rightarrow> (DetectorElement \<times> DetectorElement list) list" where
  "calls_of_cell H S sArray cell =
     (case snd cell of
        None \<Rightarrow> []
      | Some bs \<Rightarrow>
          (case associatedDetectorElement S bs of
             None \<Rightarrow> []
           | Some bElement \<Rightarrow>
               map (\<lambda>nSurface. (bElement, neighbourElements_of S bs nSurface))
                 (objectCluster H sArray (fst cell))))"

text \<open>
  Modelled from the spec: \<^verbatim>\<open>BinnedArrayXD::objectCluster\<close> is outside the
  sources.  The spec: all occupied objects in the box of cells within one bin
  along every axis of the utility, a closed axis wrapping so that its first
  and last bin are adjacent.
\<close>

definition neighbourRange :: "BinningData \<Rightarrow> nat \<Rightarrow> nat list" where
  "neighbourRange bd i =
     (case bd_option bd of
        closed_bin \<Rightarrow> remdups [(i + bins bd - 1) mod bins bd, i, (i + 1) mod bins bd]
      | open_bin \<Rightarrow> (if 0 < i then [i - 1] else []) @ [i] @ (if i + 1 < bins bd then [i + 1] else []))"

text \<open>
  Modelled from the spec: the bins of axis \<open>k\<close> within one step of bin \<open>i\<close>; an
  axis that the utility does not have contributes bin 0 only.
\<close>

definition axisRange :: "BinUtility \<Rightarrow> nat \<Rightarrow> nat \<Rightarrow> nat list" where
  "axisRange u k i =
     (if k < length (binningData u) then neighbourRange (binningData u ! k) i else [0])"

text \<open>
  Modelled from the spec: the box query itself, the occupied cells of the box
  in index order.
\<close>

definition boxCluster :: "SurfaceArray \<Rightarrow> nat \<times> nat \<times> nat \<Rightarrow> Surface option list" where
  "boxCluster sArray b =
     (case b of (b0, b1, b2) \<Rightarrow>
        concat (map (\<lambda>i2. concat (map (\<lambda>i1. concat (map (\<lambda>i0.
            (case grid_get (objectGrid sArray) i2 i1 i0 of
               Inr (Some s) \<Rightarrow> [Some s]
             | _ \<Rightarrow> []))
          (axisRange (arrayUtility sArray) 0 b0)))
          (axisRange (arrayUtility sArray) 1 b1)))
          (axisRange (arrayUtility sArray) 2 b2)))"

subsection \<open>surfaceArrayOnCylinder and surfaceArrayOnDisc\<close>

text \<open>
  \<^verbatim>\<open>for (auto& sf : surfaces)\<close> of the cylinder: the binning position, its bin
  triple, and the write \<^verbatim>\<open>sGrid[bTriple[2] ][bTriple[1] ][bTriple[0] ] = sf\<close>.
\<close>

fun prefill :: "Collaborators \<Rightarrow> Surfaces \<Rightarrow> BinUtility \<Rightarrow> Surface list \<Rightarrow> SurfaceGrid \<Rightarrow>
    error + SurfaceGrid" where
  "prefill H S u [] g = Inr g"
| "prefill H S u (sf # rest) g =
     (let bPosition = binningPosition S sf binR;
          bTriple = binTriple H u bPosition
      in case grid_set g (snd (snd bTriple)) (fst (snd bTriple)) (fst bTriple) (Some sf) of
           Inl e \<Rightarrow> Inl e
         | Inr g' \<Rightarrow> prefill H S u rest g')"

text \<open>The same loop of the disc, which also sums the z coordinates.\<close>

fun prefill_z :: "Collaborators \<Rightarrow> Surfaces \<Rightarrow> BinUtility \<Rightarrow> Surface list \<Rightarrow> SurfaceGrid \<times> double \<Rightarrow>
    error + SurfaceGrid \<times> double" where
  "prefill_z H S u [] st = Inr st"
| "prefill_z H S u (sf # rest) st =
     (let bPosition = binningPosition S sf binR;
          z = dadd (snd st) (vz bPosition);
          bTriple = binTriple H u bPosition
      in case grid_set (fst st) (snd (snd bTriple)) (fst (snd bTriple)) (fst bTriple) (Some sf) of
           Inl e \<Rightarrow> Inl e
         | Inr g' \<Rightarrow> prefill_z H S u rest (g', z))"

text \<open>
  The geometry parameters are finite doubles (reals).  The bin utility of the
  cylinder: a closed phi axis, then an open z axis.
\<close>

definition cylinderUtility :: "real \<Rightarrow> real \<Rightarrow> real \<Rightarrow> nat \<Rightarrow> nat \<Rightarrow> Transform3D option \<Rightarrow> BinUtility" where
  "cylinderUtility minPhi maxPhi halfZ binsPhi binsZ transform =
     BinUtility_plus (BinUtility_1D binsPhi minPhi maxPhi closed_bin binPhi transform)
       (BinUtility_1D binsZ (- halfZ) halfZ open_bin binZ None)"

text \<open>
  The position matrix of the cylinder, filled by two counting loops in the
  source: entry \<open>[iz][iphi]\<close> is \<^verbatim>\<open>Vector3D(R * cos(phi), R * sin(phi), z)\<close>.
  The library functions \<^verbatim>\<open>cos\<close> and \<^verbatim>\<open>sin\<close> are taken to return the double
  nearest to the exact value.
\<close>

definition cylinderCentres :: "Collaborators \<Rightarrow> BinUtility \<Rightarrow> real \<Rightarrow> nat \<Rightarrow> nat \<Rightarrow> V3Matrix" where
  "cylinderCentres H u R binsPhi binsZ =
     (let bdataSet = binningData u
      in map (\<lambda>iz.
              let z = centerValue H (bdataSet ! 1) iz
              in map (\<lambda>iphi.
                   let phi = centerValue H (bdataSet ! 0) iphi
                   in Vector3D (Finite (round64 (R * round64 (cos phi))))
                        (Finite (round64 (R * round64 (sin phi)))) (Finite z))
                 [0..<binsPhi])
            [0..<binsZ])"

text \<open>
  The result is the array and the state of the detector elements after
  \<^verbatim>\<open>registerNeighbourHood\<close>.
\<close>

definition surfaceArrayOnCylinder :: "(DetectorElement \<Rightarrow> DetectorElement list \<Rightarrow> 'st \<Rightarrow> 'st) \<Rightarrow>
    Collaborators \<Rightarrow> Surfaces \<Rightarrow> Surface list \<Rightarrow> real \<Rightarrow> real \<Rightarrow> real \<Rightarrow> real \<Rightarrow> nat \<Rightarrow> nat \<Rightarrow>
    Transform3D option \<Rightarrow> 'st \<Rightarrow> error + SurfaceArray \<times> 'st" where
  "surfaceArrayOnCylinder reg H S surfaces R minPhi maxPhi halfZ binsPhi binsZ transform els =
     (let arrayUtility0 = cylinderUtility minPhi maxPhi halfZ binsPhi binsZ transform;
          sGrid0 = [replicate binsZ (replicate binsPhi None)];
          v3Matrix = cylinderCentres H arrayUtility0 R binsPhi binsZ
      in case prefill H S arrayUtility0 surfaces sGrid0 of
           Inl e \<Rightarrow> Inl e
         | Inr sGrid1 \<Rightarrow>
             (case completeBinning S v3Matrix surfaces sGrid1 of
                Inl e \<Rightarrow> Inl e
              | Inr r \<Rightarrow>
                  (let sArray = \<lparr>objectGrid = fst r, arrayUtility = arrayUtility0\<rparr>
                   in Inr (sArray, fst (registerNeighbourHood reg H S sArray els)))))"

text \<open>
  The bin utility of the disc: a 0-dimensional radial axis when
  \<^verbatim>\<open>binsR == 1\<close>, an open radial axis otherwise, then a closed phi axis.
\<close>

definition discUtility :: "real \<Rightarrow> real \<Rightarrow> real \<Rightarrow> real \<Rightarrow> nat \<Rightarrow> nat \<Rightarrow> Transform3D option \<Rightarrow> BinUtility" where
  "discUtility minR maxR minPhi maxPhi binsR binsPhi transform =
     BinUtility_plus
       (if binsR = 1 then BinUtility_of (BinningData_0D binR minR maxR) transform
        else BinUtility_1D binsR minR maxR open_bin binR transform)
       (BinUtility_1D binsPhi minPhi maxPhi closed_bin binPhi None)"

text \<open>
  The position matrix of the disc: entry \<open>[iphi][ir]\<close> is
  \<^verbatim>\<open>Vector3D(R * cos(phi), R * sin(phi), z)\<close> with the averaged \<open>z\<close>.
\<close>

definition discCentres :: "Collaborators \<Rightarrow> BinUtility \<Rightarrow> double \<Rightarrow> nat \<Rightarrow> nat \<Rightarrow> V3Matrix" where
  "discCentres H u z binsR binsPhi =
     (let bdataSet = binningData u
      in map (\<lambda>iphi.
              let phi = centerValue H (bdataSet ! 1) iphi
              in map (\<lambda>ir.
                   let R = centerValue H (bdataSet ! 0) ir
                   in Vector3D (Finite (round64 (R * round64 (cos phi))))
                        (Finite (round64 (R * round64 (sin phi)))) z)
                 [0..<binsR])
            [0..<binsPhi])"

text \<open>The average z of the disc: the sum of the loop divided by the number of surfaces.\<close>

definition averageZ :: "Surfaces \<Rightarrow> Surface list \<Rightarrow> double" where
  "averageZ S surfaces =
     ddiv_count (fold (\<lambda>sf z. dadd z (vz (binningPosition S sf binR))) surfaces (Finite 0))
       (length surfaces)"

definition surfaceArrayOnDisc :: "(DetectorElement \<Rightarrow> DetectorElement list \<Rightarrow> 'st \<Rightarrow> 'st) \<Rightarrow>
    Collaborators \<Rightarrow> Surfaces \<Rightarrow> Surface list \<Rightarrow> real \<Rightarrow> real \<Rightarrow> real \<Rightarrow> real \<Rightarrow> nat \<Rightarrow> nat \<Rightarrow>
    Transform3D option \<Rightarrow> 'st \<Rightarrow> error + SurfaceArray \<times> 'st" where
  "surfaceArrayOnDisc reg H S surfaces minR maxR minPhi maxPhi binsR binsPhi transform els =
     (let arrayUtility0 = discUtility minR maxR minPhi maxPhi binsR binsPhi transform;
          sGrid0 = [replicate binsPhi (replicate binsR None)]
      in case prefill_z H S arrayUtility0 surfaces (sGrid0, Finite 0) of
           Inl e \<Rightarrow> Inl e
         | Inr p \<Rightarrow>
             (let z = ddiv_count (snd p) (length surfaces);
                  v3Matrix = discCentres H arrayUtility0 z binsR binsPhi
              in case completeBinning S v3Matrix surfaces (fst p) of
                   Inl e \<Rightarrow> Inl e
                 | Inr r \<Rightarrow>
                     (let sArray = \<lparr>objectGrid = fst r, arrayUtility = arrayUtility0\<rparr>
                      in Inr (sArray, fst (registerNeighbourHood reg H S sArray els)))))"

text \<open>
  The surface that the placement loop leaves in the cell with bin triple \<open>b\<close>:
  the last surface of the list whose binning position has that triple.
\<close>

definition last_placed :: "Collaborators \<Rightarrow> Surfaces \<Rightarrow> BinUtility \<Rightarrow> Surface list \<Rightarrow>
    nat \<times> nat \<times> nat \<Rightarrow> Surface option" where
  "last_placed H S u surfaces b =
     (case filter (\<lambda>sf. binTriple H u (binningPosition S sf binR) = b) surfaces of
        [] \<Rightarrow> None
      | l \<Rightarrow> Some (last l))"

subsection \<open>Concrete inputs\<close>

text \<open>
  Surface \<open>s\<close> has its binning position at \<open>z = s\<close> on the z axis and the
  detector element \<open>100 + s\<close>.
\<close>

definition line_surfaces :: Surfaces where
  "line_surfaces =
     \<lparr>binningPosition = (\<lambda>s bv. Vector3D (Finite 0) (Finite 0) (Finite (real s))),
      associatedDetectorElement = (\<lambda>s. Some (100 + s))\<rparr>"

definition on_axis :: "real \<Rightarrow> Vector3D" where
  "on_axis z = Vector3D (Finite 0) (Finite 0) (Finite z)"

text \<open>
  Collaborators for a layer along the z axis: a point falls into the z bin of
  width 10 that holds it (axis 1), the centre of z bin \<open>i\<close> is \<open>10 i + 5\<close>, every
  other centre value is 0, and the cluster query is the box query of the spec.
\<close>

definition line_tools :: Collaborators where
  "line_tools =
     \<lparr>binTriple = (\<lambda>u v. case vz v of Finite z \<Rightarrow> (0, nat \<lfloor>z / 10\<rfloor>, 0) | NaN \<Rightarrow> (0, 0, 0)),
      centerValue = (\<lambda>bd i. if binvalue bd = binZ then 10 * real i + 5 else 0),
      objectCluster = boxCluster\<rparr>"

text \<open>Surfaces that all share the detector element 5.\<close>

definition shared_surfaces :: Surfaces where
  "shared_surfaces =
     \<lparr>binningPosition = (\<lambda>s bv. Vector3D (Finite 0) (Finite 0) (Finite (real s))),
      associatedDetectorElement = (\<lambda>s. Some 5)\<rparr>"

text \<open>Distinct surfaces never share a detector element.\<close>

definition distinct_elements :: "Surfaces \<Rightarrow> bool" where
  "distinct_elements S \<longleftrightarrow>
     (\<forall>s t e. associatedDetectorElement S s = Some e \<and> associatedDetectorElement S t = Some e \<longrightarrow> s = t)"

text \<open>Two cells in phi, one in z, holding the surfaces 0 and 1.\<close>

definition pair_array :: SurfaceArray where
  "pair_array = \<lparr>objectGrid = [ [ [Some 0, Some 1] ] ], arrayUtility = cylinderUtility 0 1 1 2 1 None\<rparr>"

text \<open>
  Eight cells in phi, one in z, cell \<open>k\<close> holding surface \<open>k\<close>; the phi range is
  \<open>[0, 2 pi)\<close>, with the double nearest to \<open>2 pi\<close>.
\<close>

definition ring8 :: SurfaceArray where
  "ring8 = \<lparr>objectGrid = [ [ [Some 0, Some 1, Some 2, Some 3, Some 4, Some 5, Some 6, Some 7] ] ],
             arrayUtility = cylinderUtility 0 6.283185307179586 1 8 1 None\<rparr>"



text \<open>
  A grid as the constructions allocate it: one plane of \<open>n1\<close> rows with \<open>n0\<close>
  cells each.
\<close>

definition grid_shape :: "SurfaceGrid \<Rightarrow> nat \<Rightarrow> nat \<Rightarrow> bool" where
  "grid_shape g n1 n0 \<longleftrightarrow>
     length g = 1 \<and> length (g ! 0) = n1 \<and> (\<forall>row\<in>set (g ! 0). length row = n0)"


text \<open>
  The bin triple \<open>b\<close> addresses a cell of a grid of that shape: axis 0 below
  \<open>n0\<close>, axis 1 below \<open>n1\<close>, axis 2 equal to 0.
\<close>

definition in_grid :: "nat \<Rightarrow> nat \<Rightarrow> nat \<times> nat \<times> nat \<Rightarrow> bool" where
  "in_grid n1 n0 b \<longleftrightarrow> fst b < n0 \<and> fst (snd b) < n1 \<and> snd (snd b) = 0"

text \<open>The bin utility maps every input surface to a cell of the grid.\<close>

definition all_in_grid :: "Collaborators \<Rightarrow> Surfaces \<Rightarrow> BinUtility \<Rightarrow> Surface list \<Rightarrow> nat \<Rightarrow> nat \<Rightarrow> bool" where
  "all_in_grid H S u surfaces n1 n0 \<longleftrightarrow>
     (\<forall>sf\<in>set surfaces. in_grid n1 n0 (binTriple H u (binningPosition S sf binR)))"

text \<open>
  Collaborators with two bins on axis 0: a point falls into the axis-0 bin given
  by the parity of its z coordinate and into the z bin of width 10 (axis 1).
\<close>

definition parity_tools :: Collaborators where
  "parity_tools =
     \<lparr>binTriple = (\<lambda>u v. case vz v of
          Finite z \<Rightarrow> (nat \<lfloor>z\<rfloor> mod 2, nat \<lfloor>z / 10\<rfloor>, 0) | NaN \<Rightarrow> (0, 0, 0)),
      centerValue = (\<lambda>bd i. if binvalue bd = binZ then 10 * real i + 5 else 0),
      objectCluster = boxCluster\<rparr>"


text \<open>The grid that the placement leaves in the example with six cells.\<close>

definition six_cells :: SurfaceGrid where
  "six_cells = [ [ [Some 4, Some 7], [Some 14, None], [None, Some 25] ] ]"

section \<open>Lemmas about rounding\<close>

lemma rne_of_int: "rne (of_int j) = j"
  by (simp add: rne_def)

lemma pow2_powr: "pow2 k = 2 powr of_int k"
  by (simp add: pow2_def powr_real_of_int divide_inverse)

lemma pow2_pos: "0 < pow2 k"
  by (simp add: pow2_powr)

lemma pow2_mono: "j \<le> k \<Longrightarrow> pow2 j \<le> pow2 k"
  by (simp add: pow2_powr)

lemma exponent_bounds:
  assumes "x \<noteq> 0"
  shows "pow2 (exponent x) \<le> \<bar>x\<bar>" and "\<bar>x\<bar> < pow2 (exponent x + 1)"
proof -
  from assms have "0 < \<bar>x\<bar>" by simp
  from floor_log_eq_powr_iff [OF this, of 2 "exponent x"]
  have "2 powr of_int (exponent x) \<le> \<bar>x\<bar> \<and> \<bar>x\<bar> < 2 powr (of_int (exponent x) + 1)"
    by (simp add: exponent_def)
  then show "pow2 (exponent x) \<le> \<bar>x\<bar>" and "\<bar>x\<bar> < pow2 (exponent x + 1)"
    by (simp_all add: pow2_powr)
qed


lemma round64_exact:
  assumes "x / ulp x \<in> \<int>"
  shows "round64 x = x"
proof (cases "x = 0")
  case True
  then show ?thesis by (simp add: round64_def)
next
  case False
  from assms obtain j where j: "x / ulp x = of_int j" by (auto elim: Ints_cases)
  have "0 < ulp x" by (simp add: ulp_def pow2_pos)
  have "ulp x * of_int (rne (x / ulp x)) = ulp x * (x / ulp x)"
    by (simp add: j rne_of_int)
  also have "\<dots> = x" using \<open>0 < ulp x\<close> by simp
  finally show ?thesis using False by (simp add: round64_def)
qed

lemma round64_Ints:
  assumes "x \<in> \<int>" and "\<bar>x\<bar> < 9007199254740992"
  shows "round64 x = x"
proof (cases "x = 0")
  case True
  then show ?thesis by (simp add: round64_def)
next
  case False
  from assms(1) obtain j where j: "x = of_int j" by (auto elim: Ints_cases)
  with False have one: "1 \<le> \<bar>x\<bar>" by auto
  let ?e = "exponent x"
  have "0 \<le> ?e"
  proof (rule ccontr)
    assume "\<not> 0 \<le> ?e"
    then have "?e + 1 \<le> 0" by simp
    then have "pow2 (?e + 1) \<le> pow2 0" by (rule pow2_mono)
    with exponent_bounds(2) [OF False] one show False by (simp add: pow2_def)
  qed
  moreover have "?e \<le> 52"
  proof (rule ccontr)
    assume "\<not> ?e \<le> 52"
    then have "53 \<le> ?e" by simp
    then have "pow2 53 \<le> pow2 ?e" by (rule pow2_mono)
    with exponent_bounds(1) [OF False] assms(2) show False by (simp add: pow2_def)
  qed
  ultimately have "ulp x = 1 / 2 ^ nat (52 - ?e)"
    by (auto simp: ulp_def pow2_def)
  then have "x / ulp x = of_int (j * 2 ^ nat (52 - ?e))" by (simp add: j)
  then have "x / ulp x \<in> \<int>" by (metis Ints_of_int)
  then show ?thesis by (rule round64_exact)
qed



section \<open>Lemmas about completeBinning\<close>

lemma dless_irrefl: "\<not> dless a a"
  by (cases a) simp_all

lemma dless_trans: "dless a b \<Longrightarrow> dless b c \<Longrightarrow> dless a c"
  by (cases a; cases b; cases c) simp_all

lemma dless_asym: "dless a b \<Longrightarrow> \<not> dless b a"
  by (cases a; cases b) simp_all

lemma dle_dless_trans: "dle a b \<Longrightarrow> dless b c \<Longrightarrow> dless a c"
  by (cases a; cases b; cases c) simp_all

lemma dless_not_dle: "dless a b \<Longrightarrow> \<not> dle b a"
  by (cases a; cases b) simp_all






lemma first_nearest_Suc_new:
  assumes "dless (testPath_of S c sf) m" "first_nearest S c sfs (testPath_of S c sf) k"
  shows "first_nearest S c (sf # sfs) m (Suc k)"
  using assms unfolding first_nearest_def
  by (auto simp: All_less_Suc2 dest: dless_trans dless_asym dless_not_dle)

lemma first_nearest_0:
  assumes "dless (testPath_of S c sf) m" "\<forall>s\<in>set sfs. \<not> dless (testPath_of S c s) (testPath_of S c sf)"
  shows "first_nearest S c (sf # sfs) m 0"
  using assms unfolding first_nearest_def
  by (auto simp: All_less_Suc2 dless_irrefl)

lemma first_nearest_Suc_old:
  assumes "\<not> dless (testPath_of S c sf) m" "first_nearest S c sfs m k"
  shows "first_nearest S c (sf # sfs) m (Suc k)"
  using assms unfolding first_nearest_def
  by (auto simp: All_less_Suc2 dest: dless_trans dle_dless_trans)

lemma nearest_cases:
  "nearest S c sfs (cell, m) = (cell', m') \<Longrightarrow>
     (cell' = cell \<and> m' = m \<and> (\<forall>s\<in>set sfs. \<not> dless (testPath_of S c s) m)) \<or>
     (\<exists>k. first_nearest S c sfs m k \<and> cell' = Some (sfs ! k) \<and> m' = testPath_of S c (sfs ! k))"
proof (induction sfs arbitrary: cell m)
  case Nil
  then show ?case by simp
next
  case (Cons sf sfs)
  let ?t = "testPath_of S c sf"
  show ?case
  proof (cases "dless ?t m")
    case True
    with Cons.prems have "nearest S c sfs (Some sf, ?t) = (cell', m')"
      by (simp add: testPath_of_def)
    from Cons.IH [OF this] show ?thesis
    proof
      assume "cell' = Some sf \<and> m' = ?t \<and> (\<forall>s\<in>set sfs. \<not> dless (testPath_of S c s) ?t)"
      with first_nearest_0 [OF True, of sfs] have "first_nearest S c (sf # sfs) m 0 \<and>
          cell' = Some ((sf # sfs) ! 0) \<and> m' = testPath_of S c ((sf # sfs) ! 0)"
        by simp
      then show ?thesis by blast
    next
      assume "\<exists>k. first_nearest S c sfs ?t k \<and> cell' = Some (sfs ! k) \<and> m' = testPath_of S c (sfs ! k)"
      then obtain k where "first_nearest S c sfs ?t k" "cell' = Some (sfs ! k)"
          "m' = testPath_of S c (sfs ! k)"
        by blast
      with first_nearest_Suc_new [OF True] have "first_nearest S c (sf # sfs) m (Suc k) \<and>
          cell' = Some ((sf # sfs) ! Suc k) \<and> m' = testPath_of S c ((sf # sfs) ! Suc k)"
        by simp
      then show ?thesis by blast
    qed
  next
    case False
    with Cons.prems have "nearest S c sfs (cell, m) = (cell', m')"
      by (simp add: testPath_of_def)
    from Cons.IH [OF this] show ?thesis
    proof
      assume "cell' = cell \<and> m' = m \<and> (\<forall>s\<in>set sfs. \<not> dless (testPath_of S c s) m)"
      with False show ?thesis by simp
    next
      assume "\<exists>k. first_nearest S c sfs m k \<and> cell' = Some (sfs ! k) \<and> m' = testPath_of S c (sfs ! k)"
      then obtain k where "first_nearest S c sfs m k" "cell' = Some (sfs ! k)"
          "m' = testPath_of S c (sfs ! k)"
        by blast
      with first_nearest_Suc_old [OF False] have "first_nearest S c (sf # sfs) m (Suc k) \<and>
          cell' = Some ((sf # sfs) ! Suc k) \<and> m' = testPath_of S c ((sf # sfs) ! Suc k)"
        by simp
      then show ?thesis by blast
    qed
  qed
qed






lemma round64_zero: "round64 0 = 0"
  by (simp add: round64_def)

lemma round64_square:
  assumes "d \<in> \<int>" and "\<bar>d\<bar> < 67108864"
  shows "round64 (d * d) = d * d"
proof -
  have "\<bar>d\<bar> * \<bar>d\<bar> < 67108864 * 67108864"
    using assms(2) by (intro mult_strict_mono) simp_all
  then have "\<bar>d * d\<bar> < 9007199254740992" by (simp add: abs_mult)
  moreover from assms(1) have "d * d \<in> \<int>" by simp
  ultimately show ?thesis by (intro round64_Ints)
qed

lemma mag_on_axis:
  assumes "a \<in> \<int>" and "b \<in> \<int>" and "\<bar>a - b\<bar> < 67108864"
  shows "mag (vsub (on_axis a) (on_axis b)) = Finite \<bar>a - b\<bar>"
proof -
  from assms have d: "a - b \<in> \<int>" by simp
  from assms(3) have "\<bar>a - b\<bar> < 9007199254740992" by simp
  with d have r: "round64 (a - b) = a - b" by (intro round64_Ints)
  from d have "\<bar>a - b\<bar> \<in> \<int>" by simp
  moreover from assms(3) have "\<bar>\<bar>a - b\<bar>\<bar> < 9007199254740992" by simp
  ultimately have q: "round64 \<bar>a - b\<bar> = \<bar>a - b\<bar>" by (intro round64_Ints)
  show ?thesis
    by (simp add: on_axis_def round64_zero r round64_square [OF d assms(3)] q)
qed

lemma line_position: "binningPosition line_surfaces s bv = on_axis (real s)"
  by (simp add: line_surfaces_def on_axis_def)


lemma cell_after_cases:
  "(cell_after S c sVector cell = cell \<and> (\<forall>s\<in>set sVector. \<not> dless (testPath_of S c s) (Finite 100000000000))) \<or>
   (\<exists>k. first_nearest S c sVector (Finite 100000000000) k \<and> cell_after S c sVector cell = Some (sVector ! k))"
proof -
  obtain cell' m' where n: "nearest S c sVector (cell, Finite 100000000000) = (cell', m')"
    by (cases "nearest S c sVector (cell, Finite 100000000000)")
  from nearest_cases [OF n] n show ?thesis
    by (auto simp: cell_after_def)
qed

lemma cell_after_Some:
  assumes "s \<in> set sVector" "dless (testPath_of S c s) (Finite 100000000000)"
  shows "\<exists>k. first_nearest S c sVector (Finite 100000000000) k \<and> cell_after S c sVector cell = Some (sVector ! k)"
  using cell_after_cases [of S c sVector cell] assms by blast

text \<open>
  Claim C7.  When the number of grid cells equals the number of input surfaces,
  \<^verbatim>\<open>completeBinning\<close> returns the grid it was given, unchanged, and has
  evaluated no surface-to-centre distance (the count of \<^verbatim>\<open>testPath\<close>
  evaluations is 0).
\<close>
theorem completeBinning_fast_path:
  assumes "v3Matrix \<noteq> []"
    and "length v3Matrix * length (v3Matrix ! 0) = length sVector"
  shows "completeBinning S v3Matrix sVector g = Inr (g, 0)"
  using assms by (cases v3Matrix) (simp_all add: completeBinning_def)

theorem completeBinning_fast_path_witness:
  "[ [on_axis 2] ] \<noteq> [] \<and> length [ [on_axis 2] ] * length ([ [on_axis 2] ] ! 0) = length [3::nat] \<and>
   completeBinning line_surfaces [ [on_axis 2] ] [3] [ [ [None] ] ] = Inr ([ [ [None] ] ], 0)"
  using completeBinning_fast_path [of "[ [on_axis 2] ]" "[3]" line_surfaces "[ [ [None] ] ]"] by simp

text \<open>
  Claim C3, at a failing input.  One cell with centre \<open>z = 2\<close> holds surface 7
  from the placement; the input list is \<open>[3, 7]\<close>.  \<^verbatim>\<open>completeBinning\<close>
  replaces the surface of the filled cell by surface 3, the nearest one.
\<close>
theorem completeBinning_overwrites_filled_cell:
  "grid_get [ [ [Some 7] ] ] 0 0 0 = Inr (Some 7) \<and>
   completeBinning line_surfaces [ [on_axis 2] ] [3, 7] [ [ [Some 7] ] ] = Inr ([ [ [Some 3] ] ], 2)"
  by (simp add: completeBinning_def grid_get_def v3_get_def cell_write_def line_position mag_on_axis del: mag.simps vsub.simps)

lemma grid_get_grid_set:
  "grid_set g a b c v = Inr g' \<Longrightarrow>
   grid_get g' i j k = (if i = a \<and> j = b \<and> k = c then Inr v else grid_get g i j k)"
  by (auto simp: grid_set_def grid_get_def nth_list_update split: if_splits)

lemma last_placed_Nil: "last_placed H S u [] b = None"
  by (simp add: last_placed_def)

lemma last_placed_Cons:
  "last_placed H S u (sf # rest) b =
     (case last_placed H S u rest b of
        Some s \<Rightarrow> Some s
      | None \<Rightarrow> if binTriple H u (binningPosition S sf binR) = b then Some sf else None)"
  by (auto simp: last_placed_def split: list.splits)

lemma prefill_char:
  "prefill H S u surfaces g = Inr g' \<Longrightarrow>
   grid_get g' i j k =
     (case last_placed H S u surfaces (k, j, i) of None \<Rightarrow> grid_get g i j k | Some s \<Rightarrow> Inr (Some s))"
proof (induction surfaces arbitrary: g)
  case Nil
  then show ?case by (simp add: last_placed_Nil)
next
  case (Cons sf rest)
  let ?b = "binTriple H u (binningPosition S sf binR)"
  from Cons.prems obtain g1 where
    s: "grid_set g (snd (snd ?b)) (fst (snd ?b)) (fst ?b) (Some sf) = Inr g1" and
    p: "prefill H S u rest g1 = Inr g'"
    by (auto simp: Let_def split: sum.splits)
  have eq: "?b = (k, j, i) \<longleftrightarrow> i = snd (snd ?b) \<and> j = fst (snd ?b) \<and> k = fst ?b"
    by (cases ?b) auto
  note IH = Cons.IH [OF p]
  note G = grid_get_grid_set [OF s, of i j k]
  show ?case
  proof (cases "last_placed H S u rest (k, j, i)")
    case (Some t)
    with IH show ?thesis by (simp add: last_placed_Cons)
  next
    case None
    show ?thesis
    proof (cases "?b = (k, j, i)")
      case True
      with eq have "grid_get g1 i j k = Inr (Some sf)" using G by simp
      with IH None True show ?thesis by (simp add: last_placed_Cons)
    next
      case False
      with eq have "grid_get g1 i j k = grid_get g i j k" using G by auto
      with IH None False show ?thesis by (simp add: last_placed_Cons)
    qed
  qed
qed

lemma prefill_z_prefill:
  "prefill_z H S u surfaces (g, z) =
     (case prefill H S u surfaces g of
        Inl e \<Rightarrow> Inl e
      | Inr g' \<Rightarrow> Inr (g', fold (\<lambda>sf z. dadd z (vz (binningPosition S sf binR))) surfaces z))"
  by (induction surfaces arbitrary: g z) (auto simp: Let_def split: sum.splits)

lemma grid_get_fresh:
  "grid_get [replicate n1 (replicate n0 None)] i j k =
     (if i = 0 \<and> j < n1 \<and> k < n0 then Inr None else Inl OutOfRange)"
  by (auto simp: grid_get_def)


lemma vz_on_axis: "vz (on_axis z) = Finite z"
  by (simp add: on_axis_def)

lemma replicate_3: "replicate 3 x = [x, x, x]"
  by (simp add: numeral_3_eq_3)

lemma cluster_fold_fst:
  "fst (fold (cluster_step reg S bs be) cl st) =
     fold (\<lambda>(e, l). reg e l) (map (\<lambda>ns. (be, neighbourElements_of S bs ns)) cl) (fst st)"
  by (induction cl arbitrary: st) (simp_all add: cluster_step_def Let_def)

lemma cell_visit_fst:
  "fst (cell_visit reg H S sArray io2 io1 io0 b st) =
     fold (\<lambda>(e, l). reg e l) (calls_of_cell H S sArray ((io0, io1, io2), b)) (fst st)"
  by (simp add: cell_visit_def calls_of_cell_def cluster_fold_fst split: option.splits)

lemma fold_fst_concat:
  assumes "\<And>x s. fst (f x s) = fold h (c x) (fst s)"
  shows "fst (fold f xs s) = fold h (concat (map c xs)) (fst s)"
  using assms by (induction xs arbitrary: s) simp_all

lemma concat_map_concat_map:
  "concat (map f (concat (map g xs))) = concat (map (\<lambda>x. concat (map f (g x))) xs)"
  by (induction xs) simp_all

lemma fold_v10:
  "fst (fold (\<lambda>(io0, b). cell_visit reg H S sArray io2 io1 io0 b) xs s) =
     fold (\<lambda>(e, l). reg e l)
       (concat (map (\<lambda>(io0, b). calls_of_cell H S sArray ((io0, io1, io2), b)) xs)) (fst s)"
  by (rule fold_fst_concat) (clarsimp simp: cell_visit_fst)

lemma fold_v210:
  "fst (fold (\<lambda>(io1, v10). fold (\<lambda>(io0, b). cell_visit reg H S sArray io2 io1 io0 b)
          (enumerate 0 v10)) ys s) =
     fold (\<lambda>(e, l). reg e l)
       (concat (map (\<lambda>(io1, v10).
          concat (map (\<lambda>(io0, b). calls_of_cell H S sArray ((io0, io1, io2), b)) (enumerate 0 v10))) ys))
       (fst s)"
  by (rule fold_fst_concat) (clarsimp simp: fold_v10)

lemma fold_grid:
  "fst (fold (\<lambda>(io2, v210). fold (\<lambda>(io1, v10). fold (\<lambda>(io0, b). cell_visit reg H S sArray io2 io1 io0 b)
          (enumerate 0 v10)) (enumerate 0 v210)) zs s) =
     fold (\<lambda>(e, l). reg e l)
       (concat (map (\<lambda>(io2, v210). concat (map (\<lambda>(io1, v10).
          concat (map (\<lambda>(io0, b). calls_of_cell H S sArray ((io0, io1, io2), b)) (enumerate 0 v10)))
            (enumerate 0 v210))) zs))
       (fst s)"
  by (rule fold_fst_concat) (clarsimp simp: fold_v210)

lemma calls_of_cells:
  "concat (map (calls_of_cell H S sArray) (cells_of g)) =
     concat (map (\<lambda>(io2, v210). concat (map (\<lambda>(io1, v10).
          concat (map (\<lambda>(io0, b). calls_of_cell H S sArray ((io0, io1, io2), b)) (enumerate 0 v10)))
            (enumerate 0 v210))) (enumerate 0 g))"
  by (simp add: cells_of_def concat_map_concat_map split_def comp_def)

lemma registerNeighbourHood_calls:
  "fst (registerNeighbourHood reg H S sArray els) =
     fold (\<lambda>(e, l). reg e l)
       (concat (map (calls_of_cell H S sArray) (cells_of (objectGrid sArray)))) els"
  by (simp add: registerNeighbourHood_def fold_grid calls_of_cells)

lemma fold_logCalls: "fold (\<lambda>(e, l). logCalls e l) cs tr = tr @ cs"
  by (induction cs arbitrary: tr) (auto simp: logCalls_def)

lemma registerNeighbourHood_log:
  "fst (registerNeighbourHood logCalls H S sArray tr) =
     tr @ concat (map (calls_of_cell H S sArray) (cells_of (objectGrid sArray)))"
  by (simp add: registerNeighbourHood_calls fold_logCalls)

lemma neighbourElements_le1: "length (neighbourElements_of S bs ns) \<le> Suc 0"
  by (simp add: neighbourElements_of_def split: option.splits)

lemma calls_of_cell_le1: "(e, l) \<in> set (calls_of_cell H S sArray cell) \<Longrightarrow> length l \<le> 1"
  by (auto simp: calls_of_cell_def neighbourElements_le1 split: option.splits)

lemma fold_registerNeighbours:
  "fold (\<lambda>(e, l). registerNeighbours e l) cs nb e = nb e \<or>
   (\<exists>l. (e, l) \<in> set cs \<and> fold (\<lambda>(e, l). registerNeighbours e l) cs nb e = l)"
proof (induction cs arbitrary: nb)
  case Nil
  then show ?case by simp
next
  case (Cons c cs)
  obtain e' l' where c: "c = (e', l')" by (cases c)
  from Cons.IH [of "registerNeighbours e' l' nb"] c show ?case
    by (auto simp: registerNeighbours_def split: if_splits)
qed

section \<open>Neighbour registration and the constructions\<close>

text \<open>
  Claim C1, at a failing input: the ring of eight surfaces (\<open>binsPhi = 8\<close>,
  \<open>binsZ = 1\<close>), surface \<open>k\<close> with element \<open>100 + k\<close>, the box query and
  the last-write-wins registration of the spec.  After
  \<^verbatim>\<open>registerNeighbourHood\<close> every element holds one neighbour, the one of the
  last surface of its cluster, not the two of its left and right cells.
\<close>
theorem ring_of_eight_last_call_wins:
  "map (fst (registerNeighbourHood registerNeighbours line_tools line_surfaces ring8 (\<lambda>_. [])))
       [100, 101, 102, 103, 104, 105, 106, 107] =
     [ [101], [102], [103], [104], [105], [106], [107], [100] ]"
  by code_simp

lemma pair_shared_log:
  "fst (registerNeighbourHood logCalls line_tools shared_surfaces pair_array []) =
     [(5, []), (5, [5]), (5, []), (5, [5])]"
  by code_simp

lemma pair_line_log:
  "fst (registerNeighbourHood logCalls line_tools line_surfaces pair_array []) =
     [(100, []), (100, [101]), (101, []), (101, [100])]"
  by code_simp

text \<open>
  Claim C9.  The calls of \<^verbatim>\<open>registerNeighbours\<close> made by
  \<^verbatim>\<open>registerNeighbourHood\<close> are, cell by cell in iteration order, one call on
  the cell's element per surface that the cluster query returns for the cell;
  every call passes a list of length 0 or 1; and under last-write-wins the
  final neighbour list of any element is the one it had before or has at most
  one member.
\<close>
theorem registerNeighbourHood_one_per_call:
  "fst (registerNeighbourHood logCalls H S sArray []) =
     concat (map (calls_of_cell H S sArray) (cells_of (objectGrid sArray))) \<and>
   (\<forall>io0 io1 io2 bs be. associatedDetectorElement S bs = Some be \<longrightarrow>
      calls_of_cell H S sArray ((io0, io1, io2), Some bs) =
        map (\<lambda>nSurface. (be, neighbourElements_of S bs nSurface)) (objectCluster H sArray (io0, io1, io2))) \<and>
   (\<forall>c\<in>set (fst (registerNeighbourHood logCalls H S sArray [])). length (snd c) \<le> 1) \<and>
   (\<forall>e. fst (registerNeighbourHood registerNeighbours H S sArray nb) e = nb e \<or>
        length (fst (registerNeighbourHood registerNeighbours H S sArray nb) e) \<le> 1)"
proof (intro conjI allI impI ballI)
  show "fst (registerNeighbourHood logCalls H S sArray []) =
     concat (map (calls_of_cell H S sArray) (cells_of (objectGrid sArray)))"
    by (simp add: registerNeighbourHood_log)
next
  fix io0 io1 io2 bs be
  assume "associatedDetectorElement S bs = Some be"
  then show "calls_of_cell H S sArray ((io0, io1, io2), Some bs) =
        map (\<lambda>nSurface. (be, neighbourElements_of S bs nSurface)) (objectCluster H sArray (io0, io1, io2))"
    by (simp add: calls_of_cell_def)
next
  fix c assume "c \<in> set (fst (registerNeighbourHood logCalls H S sArray []))"
  then obtain cell where "c \<in> set (calls_of_cell H S sArray cell)"
    by (auto simp: registerNeighbourHood_log)
  then show "length (snd c) \<le> 1"
    using calls_of_cell_le1 [of "fst c" "snd c" H S sArray cell] by simp
next
  fix e
  let ?cs = "concat (map (calls_of_cell H S sArray) (cells_of (objectGrid sArray)))"
  let ?final = "fst (registerNeighbourHood registerNeighbours H S sArray nb)"
  have f: "?final = fold (\<lambda>(e, l). registerNeighbours e l) ?cs nb"
    by (rule registerNeighbourHood_calls)
  from fold_registerNeighbours [of ?cs nb e]
  show "?final e = nb e \<or> length (?final e) \<le> 1"
  proof
    assume "fold (\<lambda>(e, l). registerNeighbours e l) ?cs nb e = nb e"
    with f show ?thesis by simp
  next
    assume "\<exists>l. (e, l) \<in> set ?cs \<and> fold (\<lambda>(e, l). registerNeighbours e l) ?cs nb e = l"
    then obtain l cell where "(e, l) \<in> set (calls_of_cell H S sArray cell)" and
      l: "fold (\<lambda>(e, l). registerNeighbours e l) ?cs nb e = l"
      by auto
    from calls_of_cell_le1 [OF this(1)] l f show ?thesis by simp
  qed
qed

theorem registerNeighbourHood_one_per_call_witness:
  "fst (registerNeighbourHood logCalls line_tools line_surfaces pair_array []) =
     [(100, []), (100, [101]), (101, []), (101, [100])] \<and>
   associatedDetectorElement line_surfaces 0 = Some 100 \<and>
   calls_of_cell line_tools line_surfaces pair_array ((0, 0, 0), Some 0) =
     map (\<lambda>nSurface. (100, neighbourElements_of line_surfaces 0 nSurface))
       (objectCluster line_tools pair_array (0, 0, 0)) \<and>
   (100, [101]) \<in> set (fst (registerNeighbourHood logCalls line_tools line_surfaces pair_array [])) \<and>
   length (snd (100 :: nat, [101 :: nat])) \<le> 1"
proof -
  note T = registerNeighbourHood_one_per_call [of line_tools line_surfaces pair_array "\<lambda>_. []"]
  have a: "associatedDetectorElement line_surfaces 0 = Some 100"
    by (simp add: line_surfaces_def)
  have m: "(100, [101]) \<in> set (fst (registerNeighbourHood logCalls line_tools line_surfaces pair_array []))"
    by (simp add: pair_line_log)
  from T have "calls_of_cell line_tools line_surfaces pair_array ((0, 0, 0), Some 0) =
     map (\<lambda>nSurface. (100, neighbourElements_of line_surfaces 0 nSurface))
       (objectCluster line_tools pair_array (0, 0, 0))"
    using a by blast
  moreover from T m have "length (snd (100 :: nat, [101 :: nat])) \<le> 1" by blast
  ultimately show ?thesis using a m pair_line_log by simp
qed

lemma neighbourElements_None: "neighbourElements_of S bs None = []"
  by (simp add: neighbourElements_of_def)
lemma neighbourElements_own: "neighbourElements_of S bs (Some bs) = []"
  by (simp add: neighbourElements_of_def)
lemma neighbourElements_bare:
  "associatedDetectorElement S t = None \<Longrightarrow> neighbourElements_of S bs (Some t) = []"
  by (simp add: neighbourElements_of_def)
lemma neighbourElements_other:
  "associatedDetectorElement S t = Some a \<Longrightarrow> t \<noteq> bs \<Longrightarrow> neighbourElements_of S bs (Some t) = [a]"
  by (simp add: neighbourElements_of_def)
lemma neighbourElements_mem:
  assumes "e \<in> set (neighbourElements_of S bs ns)"
  obtains t where "ns = Some t" "t \<noteq> bs" "associatedDetectorElement S t = Some e"
proof (cases ns)
  case None
  with assms show ?thesis by (simp add: neighbourElements_None)
next
  case (Some t)
  show ?thesis
  proof (cases "t = bs")
    case True
    with assms Some show ?thesis by (simp add: neighbourElements_own)
  next
    case False
    show ?thesis
    proof (cases "associatedDetectorElement S t")
      case None
      with assms Some show ?thesis by (simp add: neighbourElements_bare)
    next
      case (Some a)
      with assms \<open>ns = Some t\<close> False that show ?thesis by (simp add: neighbourElements_other)
    qed
  qed
qed

text \<open>
  Against claim C8 as stated: surfaces 0 and 1 are distinct and share the
  detector element 5; the element is passed as a neighbour of itself.
\<close>

theorem shared_element_is_own_neighbour:
  "(5, [5]) \<in> set (fst (registerNeighbourHood logCalls line_tools shared_surfaces pair_array []))"
  by (simp add: pair_shared_log)

text \<open>
  Claim C8, amended.  When distinct surfaces never share a detector element,
  no call of \<^verbatim>\<open>registerNeighbours\<close> made by \<^verbatim>\<open>registerNeighbourHood\<close>
  passes an element in the neighbour list registered on that element.
\<close>

theorem no_self_neighbour:
  assumes "distinct_elements S"
    and "(e, l) \<in> set (fst (registerNeighbourHood logCalls H S sArray []))"
  shows "e \<notin> set l"
proof -
  from assms(2) obtain cell where c: "(e, l) \<in> set (calls_of_cell H S sArray cell)"
    by (auto simp: registerNeighbourHood_log)
  then obtain bs ns where b: "associatedDetectorElement S bs = Some e"
    and l: "l = neighbourElements_of S bs ns"
    by (auto simp: calls_of_cell_def split: option.splits)
  show ?thesis
  proof
    assume "e \<in> set l"
    with l have "e \<in> set (neighbourElements_of S bs ns)" by simp
    then obtain t where "t \<noteq> bs" "associatedDetectorElement S t = Some e"
      by (rule neighbourElements_mem)
    with b assms(1) show False unfolding distinct_elements_def by blast
  qed
qed

theorem no_self_neighbour_witness:
  "distinct_elements line_surfaces \<and>
   (100, [101]) \<in> set (fst (registerNeighbourHood logCalls line_tools line_surfaces pair_array [])) \<and>
   (100 :: nat) \<notin> set [101]"
proof -
  have i: "distinct_elements line_surfaces"
    by (auto simp: distinct_elements_def line_surfaces_def)
  have m: "(100, [101]) \<in> set (fst (registerNeighbourHood logCalls line_tools line_surfaces pair_array []))"
    by (simp add: pair_line_log)
  from no_self_neighbour [OF i m] i m show ?thesis by simp
qed

lemma cells_of_sound:
  "((i0, i1, i2), b) \<in> set (cells_of g) \<Longrightarrow> grid_get g i2 i1 i0 = Inr b"
  by (auto simp: cells_of_def grid_get_def in_set_enumerate_eq)

lemma calls_of_empty_cell: "calls_of_cell H S sArray (b, None) = []"
  by (simp add: calls_of_cell_def)

lemma registerNeighbourHood_fresh:
  "fst (registerNeighbourHood reg H S \<lparr>objectGrid = [replicate n1 (replicate n0 None)], arrayUtility = u\<rparr> els) = els"
proof -
  have "calls_of_cell H S sArray cell = []"
    if "cell \<in> set (cells_of [replicate n1 (replicate n0 None)])" for cell sArray
  proof -
    obtain i0 i1 i2 b where c: "cell = ((i0, i1, i2), b)" by (cases cell) auto
    with that have "grid_get [replicate n1 (replicate n0 None)] i2 i1 i0 = Inr b"
      by (simp add: cells_of_sound)
    then have "b = None" by (simp add: grid_get_fresh split: if_splits)
    with c show ?thesis by (simp add: calls_of_empty_cell)
  qed
  then have "concat (map (calls_of_cell H S \<lparr>objectGrid = [replicate n1 (replicate n0 None)], arrayUtility = u\<rparr>)
      (cells_of [replicate n1 (replicate n0 None)])) = []"
    by simp
  then show ?thesis by (simp add: registerNeighbourHood_calls del: concat_eq_Nil_conv)
qed

lemma loop_io0_no_surfaces:
  "\<forall>c\<in>set cols. (\<exists>x. grid_get g 0 io1 c = Inr x) \<and> (\<exists>y. v3_get v3Matrix io1 c = Inr y) \<Longrightarrow>
   loop_io0 S v3Matrix [] io1 cols (g, n) = Inr (g, n)"
  by (induction cols) auto

lemma loop_io1_no_surfaces:
  "\<forall>b\<in>set rows. \<forall>c<n0. (\<exists>x. grid_get g 0 b c = Inr x) \<and> (\<exists>y. v3_get v3Matrix b c = Inr y) \<Longrightarrow>
   loop_io1 S v3Matrix [] n0 rows (g, n) = Inr (g, n)"
  by (induction rows) (simp_all add: loop_io0_no_surfaces)

lemma length_cylinderCentres: "length (cylinderCentres H u R binsPhi binsZ) = binsZ"
  by (simp add: cylinderCentres_def Let_def)

lemma length_cylinderCentres_row:
  "iz < binsZ \<Longrightarrow> length (cylinderCentres H u R binsPhi binsZ ! iz) = binsPhi"
  by (simp add: cylinderCentres_def Let_def)

lemma length_discCentres: "length (discCentres H u z binsR binsPhi) = binsPhi"
  by (simp add: discCentres_def Let_def)

lemma length_discCentres_row:
  "iphi < binsPhi \<Longrightarrow> length (discCentres H u z binsR binsPhi ! iphi) = binsR"
  by (simp add: discCentres_def Let_def)

lemma completeBinning_no_surfaces:
  assumes "0 < n1" "0 < n0" "length v3Matrix = n1" "\<forall>b<n1. length (v3Matrix ! b) = n0"
  shows "completeBinning S v3Matrix [] [replicate n1 (replicate n0 None)] =
     Inr ([replicate n1 (replicate n0 None)], 0)"
proof -
  from assms obtain row0 rest where v: "v3Matrix = row0 # rest" by (cases v3Matrix) auto
  with assms have r: "length row0 = n0" by auto
  have "loop_io1 S v3Matrix [] n0 [0..<n1] ([replicate n1 (replicate n0 None)], 0) =
      Inr ([replicate n1 (replicate n0 None)], 0)"
    by (rule loop_io1_no_surfaces) (use assms in \<open>auto simp: grid_get_fresh v3_get_def\<close>)
  with v r assms show ?thesis by (simp add: completeBinning_def)
qed

lemma cylinder_no_surfaces:
  assumes "1 \<le> binsPhi" "1 \<le> binsZ"
  shows "surfaceArrayOnCylinder reg H S [] R minPhi maxPhi halfZ binsPhi binsZ tr els =
     Inr (\<lparr>objectGrid = [replicate binsZ (replicate binsPhi None)],
           arrayUtility = cylinderUtility minPhi maxPhi halfZ binsPhi binsZ tr\<rparr>, els)"
proof -
  have "completeBinning S (cylinderCentres H (cylinderUtility minPhi maxPhi halfZ binsPhi binsZ tr) R binsPhi binsZ)
      [] [replicate binsZ (replicate binsPhi None)] = Inr ([replicate binsZ (replicate binsPhi None)], 0)"
    by (rule completeBinning_no_surfaces)
       (use assms in \<open>simp_all add: length_cylinderCentres length_cylinderCentres_row\<close>)
  then show ?thesis
    by (simp add: surfaceArrayOnCylinder_def registerNeighbourHood_fresh)
qed

lemma averageZ_no_surfaces: "averageZ S [] = NaN"
  by (simp add: averageZ_def)

lemma disc_no_surfaces:
  assumes "1 \<le> binsR" "1 \<le> binsPhi"
  shows "surfaceArrayOnDisc reg H S [] minR maxR minPhi maxPhi binsR binsPhi tr els =
     Inr (\<lparr>objectGrid = [replicate binsPhi (replicate binsR None)],
           arrayUtility = discUtility minR maxR minPhi maxPhi binsR binsPhi tr\<rparr>, els)"
proof -
  have "completeBinning S (discCentres H (discUtility minR maxR minPhi maxPhi binsR binsPhi tr) NaN binsR binsPhi)
      [] [replicate binsPhi (replicate binsR None)] = Inr ([replicate binsPhi (replicate binsR None)], 0)"
    by (rule completeBinning_no_surfaces)
       (use assms in \<open>simp_all add: length_discCentres length_discCentres_row\<close>)
  then show ?thesis
    by (simp add: surfaceArrayOnDisc_def registerNeighbourHood_fresh)
qed

text \<open>
  Claim C10.  \<^verbatim>\<open>surfaceArrayOnCylinder\<close> with an empty surface list and
  \<open>binsPhi, binsZ \<ge> 1\<close> does not fail: it returns the array whose grid cells
  are all null, and the state of the detector elements is unchanged.
\<close>
theorem cylinder_empty_input_all_null:
  assumes "1 \<le> binsPhi" and "1 \<le> binsZ"
  shows "surfaceArrayOnCylinder reg H S [] R minPhi maxPhi halfZ binsPhi binsZ tr els =
     Inr (\<lparr>objectGrid = [replicate binsZ (replicate binsPhi None)],
           arrayUtility = cylinderUtility minPhi maxPhi halfZ binsPhi binsZ tr\<rparr>, els)"
  using assms by (rule cylinder_no_surfaces)

theorem cylinder_empty_input_all_null_witness:
  "(1::nat) \<le> 2 \<and> (1::nat) \<le> 3 \<and>
   surfaceArrayOnCylinder logCalls line_tools line_surfaces [] 10 0 6.283185307179586 15 2 3 None [] =
     Inr (\<lparr>objectGrid = [ [ [None, None], [None, None], [None, None] ] ],
           arrayUtility = cylinderUtility 0 6.283185307179586 15 2 3 None\<rparr>, [])"
  using cylinder_empty_input_all_null [of 2 3 logCalls line_tools line_surfaces 10 0 "6.283185307179586" 15 None "[]"]
  by (simp add: replicate_3 numeral_2_eq_2)

text \<open>
  Against claim C4 as stated: \<^verbatim>\<open>surfaceArrayOnDisc\<close> with an empty surface
  list returns an array; it reports no error.
\<close>

theorem disc_empty_input_returns_array:
  "surfaceArrayOnDisc logCalls line_tools line_surfaces [] 1 2 0 6.283185307179586 1 1 None [] =
     Inr (\<lparr>objectGrid = [ [ [None] ] ],
           arrayUtility = discUtility 1 2 0 6.283185307179586 1 1 None\<rparr>, [])"
  using disc_no_surfaces [of 1 1 logCalls line_tools line_surfaces 1 2 0 "6.283185307179586" None "[]"]
  by simp

text \<open>
  Claim C4, amended.  \<^verbatim>\<open>surfaceArrayOnDisc\<close> with an empty surface list and
  \<open>binsR, binsPhi \<ge> 1\<close> does not fail: the average z is \<^verbatim>\<open>0.0 / 0\<close>, that
  is NaN, and the call returns the array whose grid cells are all null.
\<close>

theorem disc_empty_input_all_null:
  assumes "1 \<le> binsR" and "1 \<le> binsPhi"
  shows "averageZ S [] = NaN \<and>
     surfaceArrayOnDisc reg H S [] minR maxR minPhi maxPhi binsR binsPhi tr els =
       Inr (\<lparr>objectGrid = [replicate binsPhi (replicate binsR None)],
             arrayUtility = discUtility minR maxR minPhi maxPhi binsR binsPhi tr\<rparr>, els)"
  using assms by (simp add: disc_no_surfaces averageZ_no_surfaces)

theorem disc_empty_input_all_null_witness:
  "(1::nat) \<le> 2 \<and> (1::nat) \<le> 3 \<and> averageZ line_surfaces [] = NaN \<and>
   surfaceArrayOnDisc logCalls line_tools line_surfaces [] 1 2 0 6.283185307179586 2 3 None [] =
     Inr (\<lparr>objectGrid = [ [ [None, None], [None, None], [None, None] ] ],
           arrayUtility = discUtility 1 2 0 6.283185307179586 2 3 None\<rparr>, [])"
  using disc_empty_input_all_null [of 2 3 line_surfaces logCalls line_tools 1 2 0 "6.283185307179586" None "[]"]
  by (simp add: replicate_3 numeral_2_eq_2)






















section \<open>Totality, completion of empty cells and placement\<close>

















lemma grid_shape_fresh: "grid_shape [replicate n1 (replicate n0 None)] n1 n0"
  by (simp add: grid_shape_def)

lemma grid_set_shape:
  assumes "grid_shape g n1 n0"
  shows "grid_set g i2 i1 i0 v =
     (if in_grid n1 n0 (i0, i1, i2) then Inr (g[0 := (g ! 0)[i1 := (g ! 0 ! i1)[i0 := v] ] ])
      else Inl OutOfRange)"
proof -
  from assms have l: "length g = 1" "length (g ! 0) = n1" and r: "\<forall>row\<in>set (g ! 0). length row = n0"
    by (simp_all add: grid_shape_def)
  have "length (g ! 0 ! j) = n0" if "j < n1" for j
    using that l r by (simp add: all_set_conv_all_nth)
  with l show ?thesis by (auto simp: grid_set_def in_grid_def)
qed

lemma grid_shape_update:
  assumes "grid_shape g n1 n0"
  shows "grid_shape (g[0 := (g ! 0)[i1 := (g ! 0 ! i1)[i0 := v] ] ]) n1 n0"
proof -
  from assms have l: "length g = 1" "length (g ! 0) = n1" and r: "\<forall>j<n1. length (g ! 0 ! j) = n0"
    by (simp_all add: grid_shape_def all_set_conv_all_nth)
  have "length ((g ! 0)[i1 := (g ! 0 ! i1)[i0 := v] ] ! j) = n0" if "j < n1" for j
    using that l r by (cases "j = i1") simp_all
  then have "\<forall>j<n1. length ((g ! 0)[i1 := (g ! 0 ! i1)[i0 := v] ] ! j) = n0"
    by blast
  with l show ?thesis by (simp add: grid_shape_def all_set_conv_all_nth)
qed

lemma prefill_in_grid:
  "grid_shape g n1 n0 \<Longrightarrow> all_in_grid H S u surfaces n1 n0 \<Longrightarrow> \<exists>g'. prefill H S u surfaces g = Inr g'"
proof (induction surfaces arbitrary: g)
  case Nil
  then show ?case by simp
next
  case (Cons sf rest)
  let ?b = "binTriple H u (binningPosition S sf binR)"
  from Cons.prems(2) have here: "in_grid n1 n0 ?b" and rest: "all_in_grid H S u rest n1 n0"
    by (simp_all add: all_in_grid_def)
  let ?g1 = "g[0 := (g ! 0)[fst (snd ?b) := (g ! 0 ! fst (snd ?b))[fst ?b := Some sf] ] ]"
  have "grid_set g (snd (snd ?b)) (fst (snd ?b)) (fst ?b) (Some sf) = Inr ?g1"
    using here by (simp add: grid_set_shape [OF Cons.prems(1)])
  moreover have "grid_shape ?g1 n1 n0" using Cons.prems(1) by (rule grid_shape_update)
  from Cons.IH [OF this rest] obtain g' where "prefill H S u rest ?g1 = Inr g'" by blast
  ultimately show ?case by (simp add: Let_def)
qed

lemma prefill_out_of_grid:
  "grid_shape g n1 n0 \<Longrightarrow> \<not> all_in_grid H S u surfaces n1 n0 \<Longrightarrow> prefill H S u surfaces g = Inl OutOfRange"
proof (induction surfaces arbitrary: g)
  case Nil
  then show ?case by (simp add: all_in_grid_def)
next
  case (Cons sf rest)
  let ?b = "binTriple H u (binningPosition S sf binR)"
  show ?case
  proof (cases "in_grid n1 n0 ?b")
    case False
    then have "grid_set g (snd (snd ?b)) (fst (snd ?b)) (fst ?b) (Some sf) = Inl OutOfRange"
      by (simp add: grid_set_shape [OF Cons.prems(1)])
    then show ?thesis by (simp add: Let_def)
  next
    case True
    with Cons.prems(2) have rest: "\<not> all_in_grid H S u rest n1 n0"
      by (simp add: all_in_grid_def)
    let ?g1 = "g[0 := (g ! 0)[fst (snd ?b) := (g ! 0 ! fst (snd ?b))[fst ?b := Some sf] ] ]"
    have s: "grid_set g (snd (snd ?b)) (fst (snd ?b)) (fst ?b) (Some sf) = Inr ?g1"
      using True by (simp add: grid_set_shape [OF Cons.prems(1)])
    have "grid_shape ?g1 n1 n0" using Cons.prems(1) by (rule grid_shape_update)
    from Cons.IH [OF this rest] s show ?thesis by (simp add: Let_def)
  qed
qed

lemma placement_cells:
  assumes "all_in_grid H S u surfaces n1 n0"
  shows "\<exists>g. prefill H S u surfaces [replicate n1 (replicate n0 None)] = Inr g \<and>
     (\<forall>i1<n1. \<forall>i0<n0. grid_get g 0 i1 i0 = Inr (last_placed H S u surfaces (i0, i1, 0)))"
proof -
  from prefill_in_grid [OF grid_shape_fresh assms] obtain g where
    p: "prefill H S u surfaces [replicate n1 (replicate n0 None)] = Inr g" by blast
  have "grid_get g 0 i1 i0 = Inr (last_placed H S u surfaces (i0, i1, 0))" if "i1 < n1" "i0 < n0" for i1 i0
    using prefill_char [OF p, of 0 i1 i0] that by (simp add: grid_get_fresh split: option.splits)
  with p show ?thesis by blast
qed

text \<open>
  Claim C6.  When the bin utility maps the binning position (radial
  convention) of every input surface to a cell of the grid, the placement loop
  of the cylinder and of the disc, run on the fresh grid, succeeds, and every
  cell then holds the last surface of the input list whose bin triple is that
  cell, and is empty when there is none: a surface is stored at the cell of
  its own triple and a later surface of the same cell overwrites an earlier
  one.  When some triple lies outside the grid, the write is out of range.
\<close>
theorem placement_last_wins:
  "(all_in_grid H S (cylinderUtility minPhi maxPhi halfZ binsPhi binsZ tr) surfaces binsZ binsPhi \<longrightarrow>
      (\<exists>g. prefill H S (cylinderUtility minPhi maxPhi halfZ binsPhi binsZ tr) surfaces
              [replicate binsZ (replicate binsPhi None)] = Inr g \<and>
           (\<forall>iz<binsZ. \<forall>iphi<binsPhi. grid_get g 0 iz iphi =
              Inr (last_placed H S (cylinderUtility minPhi maxPhi halfZ binsPhi binsZ tr) surfaces (iphi, iz, 0))))) \<and>
   (\<not> all_in_grid H S (cylinderUtility minPhi maxPhi halfZ binsPhi binsZ tr) surfaces binsZ binsPhi \<longrightarrow>
      prefill H S (cylinderUtility minPhi maxPhi halfZ binsPhi binsZ tr) surfaces
        [replicate binsZ (replicate binsPhi None)] = Inl OutOfRange) \<and>
   (all_in_grid H S (discUtility minR maxR minPhi' maxPhi' binsR binsPhi' tr') surfaces binsPhi' binsR \<longrightarrow>
      (\<exists>g z. prefill_z H S (discUtility minR maxR minPhi' maxPhi' binsR binsPhi' tr') surfaces
              ([replicate binsPhi' (replicate binsR None)], Finite 0) = Inr (g, z) \<and>
           (\<forall>iphi<binsPhi'. \<forall>ir<binsR. grid_get g 0 iphi ir =
              Inr (last_placed H S (discUtility minR maxR minPhi' maxPhi' binsR binsPhi' tr') surfaces (ir, iphi, 0))))) \<and>
   (\<not> all_in_grid H S (discUtility minR maxR minPhi' maxPhi' binsR binsPhi' tr') surfaces binsPhi' binsR \<longrightarrow>
      prefill_z H S (discUtility minR maxR minPhi' maxPhi' binsR binsPhi' tr') surfaces
        ([replicate binsPhi' (replicate binsR None)], Finite 0) = Inl OutOfRange)"
proof (intro conjI impI)
  assume "all_in_grid H S (cylinderUtility minPhi maxPhi halfZ binsPhi binsZ tr) surfaces binsZ binsPhi"
  then show "\<exists>g. prefill H S (cylinderUtility minPhi maxPhi halfZ binsPhi binsZ tr) surfaces
              [replicate binsZ (replicate binsPhi None)] = Inr g \<and>
           (\<forall>iz<binsZ. \<forall>iphi<binsPhi. grid_get g 0 iz iphi =
              Inr (last_placed H S (cylinderUtility minPhi maxPhi halfZ binsPhi binsZ tr) surfaces (iphi, iz, 0)))"
    by (rule placement_cells)
next
  assume "\<not> all_in_grid H S (cylinderUtility minPhi maxPhi halfZ binsPhi binsZ tr) surfaces binsZ binsPhi"
  with grid_shape_fresh show "prefill H S (cylinderUtility minPhi maxPhi halfZ binsPhi binsZ tr) surfaces
        [replicate binsZ (replicate binsPhi None)] = Inl OutOfRange"
    by (rule prefill_out_of_grid)
next
  assume "all_in_grid H S (discUtility minR maxR minPhi' maxPhi' binsR binsPhi' tr') surfaces binsPhi' binsR"
  from placement_cells [OF this] show "\<exists>g z. prefill_z H S (discUtility minR maxR minPhi' maxPhi' binsR binsPhi' tr') surfaces
              ([replicate binsPhi' (replicate binsR None)], Finite 0) = Inr (g, z) \<and>
           (\<forall>iphi<binsPhi'. \<forall>ir<binsR. grid_get g 0 iphi ir =
              Inr (last_placed H S (discUtility minR maxR minPhi' maxPhi' binsR binsPhi' tr') surfaces (ir, iphi, 0)))"
    by (auto simp: prefill_z_prefill)
next
  assume "\<not> all_in_grid H S (discUtility minR maxR minPhi' maxPhi' binsR binsPhi' tr') surfaces binsPhi' binsR"
  with grid_shape_fresh have "prefill H S (discUtility minR maxR minPhi' maxPhi' binsR binsPhi' tr') surfaces
        [replicate binsPhi' (replicate binsR None)] = Inl OutOfRange"
    by (rule prefill_out_of_grid)
  then show "prefill_z H S (discUtility minR maxR minPhi' maxPhi' binsR binsPhi' tr') surfaces
        ([replicate binsPhi' (replicate binsR None)], Finite 0) = Inl OutOfRange"
    by (simp add: prefill_z_prefill)
qed

lemma parity_binTriple: "binTriple parity_tools u (on_axis z) = (nat \<lfloor>z\<rfloor> mod 2, nat \<lfloor>z / 10\<rfloor>, 0)"
  by (simp add: parity_tools_def on_axis_def)

lemma replicate_2: "replicate 2 x = [x, x]"
  by (simp add: numeral_2_eq_2)

lemma six_cells_sum:
  "fold (\<lambda>sf z. dadd z (vz (binningPosition line_surfaces sf binR))) [3, 14, 7, 25, 4] (Finite 0) = Finite 53"
  by (simp add: line_position vz_on_axis round64_Ints)

lemma six_cells_prefill:
  "prefill parity_tools line_surfaces u [3, 14, 7, 25, 4] [replicate 3 (replicate 2 None)] =
     Inr [ [ [Some 4, Some 7], [Some 14, None], [None, Some 25] ] ]"
  by (simp add: line_position parity_binTriple grid_set_def replicate_3 replicate_2)

lemma six_cells_prefill_z:
  "prefill_z parity_tools line_surfaces u [3, 14, 7, 25, 4] ([replicate 3 (replicate 2 None)], Finite 0) =
     Inr ([ [ [Some 4, Some 7], [Some 14, None], [None, Some 25] ] ], Finite 53)"
  by (simp only: prefill_z_prefill six_cells_prefill six_cells_sum sum.case)

lemma six_cells_in_grid: "all_in_grid parity_tools line_surfaces u [3, 14, 7, 25, 4] 3 2"
  by (simp add: all_in_grid_def in_grid_def line_position parity_binTriple)

lemma six_cells_last: "last_placed parity_tools line_surfaces u [3, 14, 7, 25, 4] (1, 0, 0) = Some 7"
  by (simp add: last_placed_def line_position parity_binTriple)

lemma six_cells_out: "\<not> all_in_grid parity_tools line_surfaces u [3, 14, 7, 25, 4] 2 2"
  by (simp add: all_in_grid_def in_grid_def line_position parity_binTriple)

theorem placement_last_wins_witness:
  "all_in_grid parity_tools line_surfaces (cylinderUtility 0 6.283185307179586 15 2 3 None) [3, 14, 7, 25, 4] 3 2 \<and>
   prefill parity_tools line_surfaces (cylinderUtility 0 6.283185307179586 15 2 3 None) [3, 14, 7, 25, 4]
     [replicate 3 (replicate 2 None)] = Inr six_cells \<and>
   grid_get six_cells 0 0 1 = Inr (Some 7) \<and>
   last_placed parity_tools line_surfaces (cylinderUtility 0 6.283185307179586 15 2 3 None)
     [3, 14, 7, 25, 4] (1, 0, 0) = Some 7 \<and>
   \<not> all_in_grid parity_tools line_surfaces (cylinderUtility 0 6.283185307179586 15 2 2 None) [3, 14, 7, 25, 4] 2 2 \<and>
   prefill parity_tools line_surfaces (cylinderUtility 0 6.283185307179586 15 2 2 None) [3, 14, 7, 25, 4]
     [replicate 2 (replicate 2 None)] = Inl OutOfRange \<and>
   all_in_grid parity_tools line_surfaces (discUtility 1 2 0 6.283185307179586 2 3 None) [3, 14, 7, 25, 4] 3 2 \<and>
   prefill_z parity_tools line_surfaces (discUtility 1 2 0 6.283185307179586 2 3 None) [3, 14, 7, 25, 4]
     ([replicate 3 (replicate 2 None)], Finite 0) = Inr (six_cells, Finite 53) \<and>
   last_placed parity_tools line_surfaces (discUtility 1 2 0 6.283185307179586 2 3 None)
     [3, 14, 7, 25, 4] (1, 0, 0) = Some 7 \<and>
   \<not> all_in_grid parity_tools line_surfaces (discUtility 1 2 0 6.283185307179586 2 2 None) [3, 14, 7, 25, 4] 2 2 \<and>
   prefill_z parity_tools line_surfaces (discUtility 1 2 0 6.283185307179586 2 2 None) [3, 14, 7, 25, 4]
     ([replicate 2 (replicate 2 None)], Finite 0) = Inl OutOfRange"
proof -
  let ?cu = "cylinderUtility 0 6.283185307179586 15 2 3 None"
  let ?du = "discUtility 1 2 0 6.283185307179586 2 3 None"
  let ?cu2 = "cylinderUtility 0 6.283185307179586 15 2 2 None"
  let ?du2 = "discUtility 1 2 0 6.283185307179586 2 2 None"
  let ?sv = "[3, 14, 7, 25, 4] :: nat list"
  note T = placement_last_wins [where H = parity_tools and S = line_surfaces and surfaces = ?sv
      and minPhi = 0 and maxPhi = "6.283185307179586" and halfZ = 15 and binsPhi = 2 and binsZ = 3 and tr = None
      and minR = 1 and maxR = 2 and minPhi' = 0 and maxPhi' = "6.283185307179586"
      and binsR = 2 and binsPhi' = 3 and tr' = None]
  note U = placement_last_wins [where H = parity_tools and S = line_surfaces and surfaces = ?sv
      and minPhi = 0 and maxPhi = "6.283185307179586" and halfZ = 15 and binsPhi = 2 and binsZ = 2 and tr = None
      and minR = 1 and maxR = 2 and minPhi' = 0 and maxPhi' = "6.283185307179586"
      and binsR = 2 and binsPhi' = 2 and tr' = None]
  have i1: "all_in_grid parity_tools line_surfaces ?cu ?sv 3 2" by (rule six_cells_in_grid)
  have i2: "all_in_grid parity_tools line_surfaces ?du ?sv 3 2" by (rule six_cells_in_grid)
  have o1: "\<not> all_in_grid parity_tools line_surfaces ?cu2 ?sv 2 2" by (rule six_cells_out)
  have o2: "\<not> all_in_grid parity_tools line_surfaces ?du2 ?sv 2 2" by (rule six_cells_out)
  have p1: "prefill parity_tools line_surfaces ?cu ?sv [replicate 3 (replicate 2 None)] = Inr six_cells"
    by (simp only: six_cells_prefill six_cells_def)
  have p2: "prefill_z parity_tools line_surfaces ?du ?sv ([replicate 3 (replicate 2 None)], Finite 0) =
      Inr (six_cells, Finite 53)"
    by (simp only: six_cells_prefill_z six_cells_def)
  have l1: "last_placed parity_tools line_surfaces ?cu ?sv (1, 0, 0) = Some 7" by (rule six_cells_last)
  have l2: "last_placed parity_tools line_surfaces ?du ?sv (1, 0, 0) = Some 7" by (rule six_cells_last)
  from T i1 obtain g where
    "prefill parity_tools line_surfaces ?cu ?sv [replicate 3 (replicate 2 None)] = Inr g"
    "\<forall>iz<3. \<forall>iphi<2. grid_get g 0 iz iphi = Inr (last_placed parity_tools line_surfaces ?cu ?sv (iphi, iz, 0))"
    by blast
  with p1 have "\<forall>iz<3. \<forall>iphi<2. grid_get six_cells 0 iz iphi =
      Inr (last_placed parity_tools line_surfaces ?cu ?sv (iphi, iz, 0))" by simp
  then have "grid_get six_cells 0 0 1 = Inr (last_placed parity_tools line_surfaces ?cu ?sv (1, 0, 0))"
    by simp
  with l1 have c: "grid_get six_cells 0 0 1 = Inr (Some 7)" by simp
  from U o1 have e1: "prefill parity_tools line_surfaces ?cu2 ?sv [replicate 2 (replicate 2 None)] = Inl OutOfRange"
    by blast
  from U o2 have e2: "prefill_z parity_tools line_surfaces ?du2 ?sv ([replicate 2 (replicate 2 None)], Finite 0) =
      Inl OutOfRange"
    by blast
  from i1 p1 c l1 o1 e1 i2 p2 l2 o2 e2 show ?thesis by (intro conjI)
qed

end
